theory Spec2Isabelle
  imports Main "HOL-Library.Word"
begin

section \<open>pipe_resize: query or set the buffer size of a named pipe\<close>

text \<open>
  The program is the single function \<open>main\<close> of \<^verbatim>\<open>src/pipe_resize.c\<close>. It talks to
  three things outside itself: the C library's \<^verbatim>\<open>strtoul\<close>, the operating system
  (\<^verbatim>\<open>open\<close>, \<^verbatim>\<open>fcntl\<close>, \<^verbatim>\<open>close\<close>, \<^verbatim>\<open>strerror\<close>) and the two output streams.
  The embedding keeps the operating system as a parameter (a record of functions over an
  arbitrary kernel state), models \<^verbatim>\<open>strtoul\<close> after the C standard, and threads a
  process state through \<open>main\<close> that records everything the run did.
\<close>

subsection \<open>C types\<close>

text \<open>
  \<^verbatim>\<open>int\<close> and \<^verbatim>\<open>unsigned\<close> are 32 bits wide on every Linux target. A value of
  either type is a 32-bit word; \<open>sint\<close> reads it as an \<^verbatim>\<open>int\<close>, \<open>unat\<close> as an
  \<^verbatim>\<open>unsigned\<close>. The width of \<^verbatim>\<open>unsigned long\<close> depends on the data model of the
  target: 32 bits on ILP32 (i386, arm), 64 bits on LP64 (x86_64, aarch64).
\<close>

type_synonym c_int = "32 word"

datatype data_model = ILP32 | LP64

fun ULONG_MAX :: "data_model \<Rightarrow> nat" where
  "ULONG_MAX ILP32 = 4294967295"
| "ULONG_MAX LP64 = 18446744073709551615"

definition INT_MAX :: int where
  "INT_MAX = 2147483647"

definition ERANGE :: nat where
  "ERANGE = 34"

subsection \<open>The C library: strtoul in base 10, the decimal output of printf\<close>

text \<open>
  A C string is the list of its characters before the terminating NUL, so
  \<^verbatim>\<open>*endptr != '\0'\<close> reads \<open>endptr \<noteq> []\<close>.

  \<^verbatim>\<open>strtoul(nptr, &endptr, 10)\<close> after ISO C 7.22.1.4 (and strtoul(3)), in the C locale:
  skip white space, take an optional sign, then the longest run of decimal digits. With
  no digit there is no conversion: the result is 0 and \<^verbatim>\<open>endptr\<close> is \<^verbatim>\<open>nptr\<close> itself.
  A value above \<^verbatim>\<open>ULONG_MAX\<close> gives \<^verbatim>\<open>ULONG_MAX\<close> and sets \<^verbatim>\<open>errno\<close> to
  \<^verbatim>\<open>ERANGE\<close>; otherwise a minus sign negates the value in \<^verbatim>\<open>unsigned long\<close>.
  The result is the value, the rest of the string, and whether the value was out of range.
\<close>

definition isspace :: "char \<Rightarrow> bool" where
  "isspace c = (c = CHR 0x20 \<or> c = CHR 0x09 \<or> c = CHR 0x0A \<or> c = CHR 0x0B \<or> c = CHR 0x0C \<or> c = CHR 0x0D)"

definition isdigit :: "char \<Rightarrow> bool" where
  "isdigit c = (48 \<le> (of_char c :: nat) \<and> (of_char c :: nat) \<le> 57)"

definition digit_of :: "char \<Rightarrow> nat" where
  "digit_of c = of_char c - 48"

definition dec_value :: "string \<Rightarrow> nat" where
  "dec_value ds = foldl (\<lambda>a c. 10 * a + digit_of c) 0 ds"

definition take_sign :: "string \<Rightarrow> bool \<times> string" where
  "take_sign s =
     (case s of
        [] \<Rightarrow> (False, s)
      | c # t \<Rightarrow> if c = CHR ''-'' then (True, t) else if c = CHR ''+'' then (False, t) else (False, s))"

definition strtoul :: "data_model \<Rightarrow> string \<Rightarrow> nat \<times> string \<times> bool" where
  "strtoul dm nptr =
     (let (negative, s) = take_sign (dropWhile isspace nptr);
          digits = takeWhile isdigit s;
          endptr = dropWhile isdigit s
      in if digits = [] then (0, nptr, False)
         else if ULONG_MAX dm < dec_value digits then (ULONG_MAX dm, endptr, True)
         else if negative then ((ULONG_MAX dm + 1 - dec_value digits) mod (ULONG_MAX dm + 1), endptr, False)
         else (dec_value digits, endptr, False))"

text \<open>The text \<^verbatim>\<open>printf("%d", i)\<close> writes: the decimal digits, after a minus sign below zero.\<close>

definition digit_char :: "nat \<Rightarrow> char" where
  "digit_char d = ''0123456789'' ! d"

fun decimal :: "nat \<Rightarrow> string" where
  "decimal n = (if n < 10 then [digit_char n] else decimal (n div 10) @ [digit_char (n mod 10)])"

declare decimal.simps [simp del]

definition printf_d :: "int \<Rightarrow> string" where
  "printf_d i = (if i < 0 then CHR ''-'' # decimal (nat (- i)) else decimal (nat i))"

subsection \<open>The operating system and the process state\<close>

text \<open>
  The operating system is a parameter: a record of the four calls the program makes, over
  an arbitrary kernel state \<open>'k\<close>. A call returns its C result, the value it gives
  \<^verbatim>\<open>errno\<close> when that result is \<open>-1\<close>, and the next kernel state. \<open>os_open\<close> is
  \<^verbatim>\<open>open(path, O_RDWR)\<close>, \<open>os_getpipe_sz\<close> is \<^verbatim>\<open>fcntl(fd, F_GETPIPE_SZ)\<close>,
  \<open>os_setpipe_sz\<close> is \<^verbatim>\<open>fcntl(fd, F_SETPIPE_SZ, n)\<close>. The program reads neither
  the result of \<^verbatim>\<open>close\<close> nor \<^verbatim>\<open>errno\<close> after it, so \<open>os_close\<close> gives the next
  kernel state only. \<open>os_strerror\<close> is \<^verbatim>\<open>strerror\<close>.
\<close>

record 'k os =
  os_open :: "string \<Rightarrow> 'k \<Rightarrow> c_int \<times> nat \<times> 'k"
  os_getpipe_sz :: "c_int \<Rightarrow> 'k \<Rightarrow> c_int \<times> nat \<times> 'k"
  os_setpipe_sz :: "c_int \<Rightarrow> c_int \<Rightarrow> 'k \<Rightarrow> c_int \<times> nat \<times> 'k"
  os_close :: "c_int \<Rightarrow> 'k \<Rightarrow> 'k"
  os_strerror :: "nat \<Rightarrow> string"

text \<open>
  Every system call of a run is recorded, in order, with its arguments, its result and,
  for the three calls that can set it, the \<^verbatim>\<open>errno\<close> of a failure.
\<close>

datatype event =
    Open string c_int nat
  | GetPipeSz c_int c_int nat
  | SetPipeSz c_int c_int c_int nat
  | Close c_int

record 'k proc =
  kern :: 'k
  errno :: nat
  stdout :: string
  stderr :: string
  calls :: "event list"

definition start :: "'k \<Rightarrow> 'k proc" where
  "start k = \<lparr>kern = k, errno = 0, stdout = [], stderr = [], calls = []\<rparr>"

definition c_open :: "'k os \<Rightarrow> string \<Rightarrow> 'k proc \<Rightarrow> c_int \<times> 'k proc" where
  "c_open K path w =
     (let (r, e, k) = os_open K path (kern w)
      in (r, w\<lparr>kern := k, errno := (if r = -1 then e else errno w),
               calls := calls w @ [Open path r e]\<rparr>))"

definition fcntl_GETPIPE_SZ :: "'k os \<Rightarrow> c_int \<Rightarrow> 'k proc \<Rightarrow> c_int \<times> 'k proc" where
  "fcntl_GETPIPE_SZ K fd w =
     (let (r, e, k) = os_getpipe_sz K fd (kern w)
      in (r, w\<lparr>kern := k, errno := (if r = -1 then e else errno w),
               calls := calls w @ [GetPipeSz fd r e]\<rparr>))"

definition fcntl_SETPIPE_SZ :: "'k os \<Rightarrow> c_int \<Rightarrow> c_int \<Rightarrow> 'k proc \<Rightarrow> c_int \<times> 'k proc" where
  "fcntl_SETPIPE_SZ K fd n w =
     (let (r, e, k) = os_setpipe_sz K fd n (kern w)
      in (r, w\<lparr>kern := k, errno := (if r = -1 then e else errno w),
               calls := calls w @ [SetPipeSz fd n r e]\<rparr>))"

definition c_close :: "'k os \<Rightarrow> c_int \<Rightarrow> 'k proc \<Rightarrow> 'k proc" where
  "c_close K fd w = w\<lparr>kern := os_close K fd (kern w), calls := calls w @ [Close fd]\<rparr>"

definition fprintf_stderr :: "string \<Rightarrow> 'k proc \<Rightarrow> 'k proc" where
  "fprintf_stderr s w = w\<lparr>stderr := stderr w @ s\<rparr>"

definition printf :: "string \<Rightarrow> 'k proc \<Rightarrow> 'k proc" where
  "printf s w = w\<lparr>stdout := stdout w @ s\<rparr>"

subsection \<open>main\<close>

text \<open>
  \<open>argv\<close> is the argument vector and \<^verbatim>\<open>argc\<close> its length. With an empty vector
  \<^verbatim>\<open>argv[0]\<close> is the null pointer, which glibc's \<^verbatim>\<open>%s\<close> prints as \<^verbatim>\<open>(null)\<close>.
  The result is the exit code and the final process state.
\<close>

definition argv0 :: "string list \<Rightarrow> string" where
  "argv0 argv = (case argv of [] \<Rightarrow> ''(null)'' | a # _ \<Rightarrow> a)"

definition parse_size :: "data_model \<Rightarrow> string \<Rightarrow> 'k proc \<Rightarrow> c_int \<times> string \<times> 'k proc" where
  \<comment> \<open>\<^verbatim>\<open>unsigned size = strtoul(argv[2], &endptr, 10)\<close>: the result narrowed to 32 bits\<close>
  "parse_size dm arg w =
     (let (v, endptr, range_error) = strtoul dm arg
      in (of_nat v, endptr, if range_error then w\<lparr>errno := ERANGE\<rparr> else w))"

definition main :: "data_model \<Rightarrow> 'k os \<Rightarrow> string list \<Rightarrow> 'k \<Rightarrow> int \<times> 'k proc" where
  "main dm K argv k =
     (let argc = int (length argv); w0 = start k in
      if argc < 2 \<or> argc > 3 then
        (1, fprintf_stderr (''Usage: '' @ argv0 argv @ '' <fifo_path> [new_fifo_size]\<newline>'') w0)
      else
        let (fd, w1) = c_open K (argv ! 1) w0 in
        if fd = -1 then
          (2, fprintf_stderr
                (''Failed to open '' @ argv ! 1 @ '': '' @ os_strerror K (errno w1) @ ''\<newline>'') w1)
        else
          (case (if argc = 3 then
                   (let (size, endptr, w2) = parse_size dm (argv ! 2) w1 in
                    if endptr \<noteq> [] \<or> size > word_of_int INT_MAX then
                      Inl (3, c_close K fd
                                (fprintf_stderr ''The size given is either invalid or too big\<newline>'' w2))
                    else Inr (fcntl_SETPIPE_SZ K fd size w2))
                 else Inr (fcntl_GETPIPE_SZ K fd w1)) of
             Inl early \<Rightarrow> early
           | Inr (ret, w3) \<Rightarrow>
               if ret = -1 then
                 (4, c_close K fd
                       (fprintf_stderr (''Operation failed: '' @ os_strerror K (errno w3) @ ''\<newline>'') w3))
               else
                 (0, c_close K fd (printf (printf_d (sint ret) @ ''\<newline>'') w3))))"

subsection \<open>An example environment\<close>

text \<open>
  One concrete operating system, on which the theorems below are instantiated: a single
  FIFO, \<^verbatim>\<open>/tmp/myfifo\<close>, whose capacity is the kernel state (65536 by default on
  Linux). Opening it gives descriptor 3; any other path fails with \<^verbatim>\<open>ENOENT\<close>. A
  requested capacity is raised to one page of 4096 bytes and refused with \<^verbatim>\<open>EPERM\<close>
  above the limit of 1048576 bytes for unprivileged processes.
\<close>

definition fifo_os :: "nat os" where
  "fifo_os =
     \<lparr>os_open = (\<lambda>path k. if path = ''/tmp/myfifo'' then (3, 0, k) else (-1, 2, k)),
      os_getpipe_sz = (\<lambda>fd k. if fd = 3 then (of_nat k, 0, k) else (-1, 9, k)),
      os_setpipe_sz = (\<lambda>fd n k.
         if fd = 3 then (if unat n \<le> 1048576 then (of_nat (max 4096 (unat n)), 0, max 4096 (unat n))
                         else (-1, 1, k))
         else (-1, 9, k)),
      os_close = (\<lambda>fd k. k),
      os_strerror = (\<lambda>e. if e = 1 then ''Operation not permitted''
                          else if e = 2 then ''No such file or directory''
                          else if e = 9 then ''Bad file descriptor''
                          else ''Unknown error'')\<rparr>"

section \<open>Properties\<close>

subsection \<open>strtoul on white space, a sign and digits\<close>

lemma isdigit_not_isspace: "isdigit c \<Longrightarrow> \<not> isspace c"
  by (auto simp: isdigit_def isspace_def)

lemma isdigit_not_sign: "isdigit c \<Longrightarrow> c \<noteq> CHR ''-'' \<and> c \<noteq> CHR ''+''"
  by (auto simp: isdigit_def)

lemma take_sign_digits:
  assumes "ds \<noteq> []" and "list_all isdigit ds"
  shows "take_sign ds = (False, ds)"
    and "take_sign (''+'' @ ds) = (False, ds)"
    and "take_sign (''-'' @ ds) = (True, ds)"
  using assms by (cases ds; auto simp: take_sign_def dest: isdigit_not_sign)+

lemma skip_space:
  assumes "list_all isspace ws" and "sg = [] \<or> sg = ''+'' \<or> sg = ''-''"
    and "ds \<noteq> []" and "list_all isdigit ds"
  shows "dropWhile isspace (ws @ sg @ ds) = sg @ ds"
proof -
  have "dropWhile isspace (ws @ sg @ ds) = dropWhile isspace (sg @ ds)"
    using assms(1) by (simp add: dropWhile_append2 list_all_iff)
  also have "\<dots> = sg @ ds"
    using assms(2-4) by (cases ds) (auto simp: isspace_def dest: isdigit_not_isspace)
  finally show ?thesis .
qed

lemma strtoul_signed_digits:
  assumes "list_all isspace ws" and "sg = [] \<or> sg = ''+'' \<or> sg = ''-''"
    and "ds \<noteq> []" and "list_all isdigit ds"
  shows "strtoul dm (ws @ sg @ ds) =
     (if ULONG_MAX dm < dec_value ds then (ULONG_MAX dm, [], True)
      else if sg = ''-'' then ((ULONG_MAX dm + 1 - dec_value ds) mod (ULONG_MAX dm + 1), [], False)
      else (dec_value ds, [], False))"
proof -
  have digits: "takeWhile isdigit ds = ds" "dropWhile isdigit ds = []"
    using assms(4) by (simp_all add: list_all_iff)
  have sign: "take_sign (sg @ ds) = (sg = ''-'', ds)"
    using assms(2) take_sign_digits [OF assms(3,4)] by auto
  show ?thesis
    unfolding strtoul_def skip_space [OF assms] sign
    using assms(3) by (simp add: digits)
qed

lemma strtoul_digits:
  assumes "ds \<noteq> []" and "list_all isdigit ds" and "dec_value ds \<le> ULONG_MAX dm"
  shows "strtoul dm ds = (dec_value ds, [], False)"
  using strtoul_signed_digits [of "[]" "[]" ds dm] assms by simp

lemma strtoul_le_ULONG_MAX:
  assumes "strtoul dm s = (v, endptr, range_error)"
  shows "v \<le> ULONG_MAX dm"
proof -
  have "(ULONG_MAX dm + 1 - x) mod (ULONG_MAX dm + 1) \<le> ULONG_MAX dm" for x
    using mod_less_divisor [of "ULONG_MAX dm + 1" "ULONG_MAX dm + 1 - x"] by simp
  then show ?thesis
    using assms by (auto simp: strtoul_def Let_def split: prod.splits if_splits)
qed

subsection \<open>Decimal strings\<close>

text \<open>The decimal string of a number is clean, and its value is the number.\<close>

lemma digit_char_digit:
  fixes d :: nat
  assumes "d < 10"
  shows "isdigit (digit_char d)" and "digit_of (digit_char d) = d"
proof -
  from assms have "d = 0 \<or> d = 1 \<or> d = 2 \<or> d = 3 \<or> d = 4 \<or>
      d = 5 \<or> d = 6 \<or> d = 7 \<or> d = 8 \<or> d = 9"
    by arith
  then have "isdigit (digit_char d) \<and> digit_of (digit_char d) = d"
    by (elim disjE) (simp_all add: digit_char_def isdigit_def digit_of_def)
  then show "isdigit (digit_char d)" and "digit_of (digit_char d) = d"
    by simp_all
qed

lemma dec_value_snoc: "dec_value (ds @ [c]) = 10 * dec_value ds + digit_of c"
  by (simp add: dec_value_def)

lemma decimal_clean:
  "decimal n \<noteq> [] \<and> list_all isdigit (decimal n) \<and> dec_value (decimal n) = n"
proof (induction n rule: decimal.induct)
  case (1 n)
  show ?case
  proof (cases "n < 10")
    case True
    then show ?thesis
      using digit_char_digit [of n] by (simp add: decimal.simps [of n] dec_value_def)
  next
    case False
    then have "decimal n = decimal (n div 10) @ [digit_char (n mod 10)]"
      by (simp add: decimal.simps [of n])
    moreover have "n mod 10 < 10" by simp
    ultimately show ?thesis
      using 1 False digit_char_digit [of "n mod 10"] by (simp add: dec_value_snoc)
  qed
qed

subsection \<open>Narrowing to 32 bits\<close>

lemma INT_MAX_le_ULONG_MAX: "n \<le> 2147483647 \<Longrightarrow> n \<le> ULONG_MAX dm"
  by (cases dm) simp_all

lemma narrow_unat:
  fixes n :: nat
  assumes "n \<le> 2147483647"
  shows "unat (of_nat n :: 32 word) = n"
  using assms by (simp add: unat_of_nat)

lemma narrow_sint:
  fixes n :: nat
  assumes "n \<le> 2147483647"
  shows "sint (of_nat n :: 32 word) = int n"
  using assms by (simp add: signed_of_nat signed_take_bit_int_eq_self)

lemma narrow_le:
  fixes n :: nat
  assumes "n \<le> 2147483647"
  shows "(of_nat n :: 32 word) \<le> 2147483647"
  using assms by (simp add: word_le_nat_alt unat_of_nat)

lemma narrow_not_minus_one:
  fixes n :: nat
  assumes "n \<le> 2147483647"
  shows "(of_nat n :: 32 word) \<noteq> -1"
proof
  assume "(of_nat n :: 32 word) = -1"
  then have "sint (of_nat n :: 32 word) = -1" by simp
  then show False using narrow_sint [OF assms] by simp
qed

text \<open>The range check of \<open>main\<close> sees the converted value modulo \<open>2^32\<close>.\<close>

lemma narrow_le_iff:
  fixes v :: nat
  shows "(of_nat v :: 32 word) \<le> 2147483647 \<longleftrightarrow> v mod 4294967296 \<le> 2147483647"
  by (simp add: word_le_nat_alt unat_of_nat)

subsection \<open>The runs of main\<close>

text \<open>
  Every run of \<open>main\<close> is one of five: a usage error, a failed open, a rejected size,
  a query and a resize (the last two ending in exit code 0 or 4).
\<close>

lemmas run_defs = main_def c_open_def fcntl_GETPIPE_SZ_def fcntl_SETPIPE_SZ_def c_close_def
  fprintf_stderr_def printf_def start_def parse_size_def

lemmas strtoul_defs = strtoul_def take_sign_def isspace_def isdigit_def dec_value_def digit_of_def

lemmas decimal_defs = printf_d_def decimal.simps digit_char_def

lemma main_usage:
  assumes "length argv < 2 \<or> 3 < length argv"
  shows "main dm K argv k =
     (1, \<lparr>kern = k, errno = 0, stdout = [],
          stderr = ''Usage: '' @ argv0 argv @ '' <fifo_path> [new_fifo_size]\<newline>'',
          calls = []\<rparr>)"
  using assms by (auto simp: run_defs)

lemma main_open_failed:
  assumes "length argv = 2 \<or> length argv = 3"
    and "os_open K (argv ! 1) k = (-1, e, k')"
  shows "main dm K argv k =
     (2, \<lparr>kern = k', errno = e, stdout = [],
          stderr = ''Failed to open '' @ argv ! 1 @ '': '' @ os_strerror K e @ ''\<newline>'',
          calls = [Open (argv ! 1) (-1) e]\<rparr>)"
  using assms by (auto simp: run_defs)

lemma main_query:
  assumes "length argv = 2"
    and "os_open K (argv ! 1) k = (fd, e, k1)" and "fd \<noteq> -1"
    and "os_getpipe_sz K fd k1 = (r, e2, k2)"
  shows "main dm K argv k =
     (if r = -1 then
        (4, \<lparr>kern = os_close K fd k2, errno = e2, stdout = [],
             stderr = ''Operation failed: '' @ os_strerror K e2 @ ''\<newline>'',
             calls = [Open (argv ! 1) fd e, GetPipeSz fd r e2, Close fd]\<rparr>)
      else
        (0, \<lparr>kern = os_close K fd k2, errno = 0, stdout = printf_d (sint r) @ ''\<newline>'',
             stderr = [],
             calls = [Open (argv ! 1) fd e, GetPipeSz fd r e2, Close fd]\<rparr>))"
  using assms by (auto simp: run_defs)

lemma main_size_rejected:
  assumes "length argv = 3"
    and "os_open K (argv ! 1) k = (fd, e, k1)" and "fd \<noteq> -1"
    and "strtoul dm (argv ! 2) = (v, endptr, range_error)"
    and "endptr \<noteq> [] \<or> (of_nat v :: 32 word) > 2147483647"
  shows "main dm K argv k =
     (3, \<lparr>kern = os_close K fd k1, errno = (if range_error then ERANGE else 0), stdout = [],
          stderr = ''The size given is either invalid or too big\<newline>'',
          calls = [Open (argv ! 1) fd e, Close fd]\<rparr>)"
  using assms by (auto simp: run_defs INT_MAX_def)

text \<open>
  Where \<^verbatim>\<open>unsigned long\<close> has 32 bits the narrowing changes nothing, and every
  converted value above \<^verbatim>\<open>INT_MAX\<close> is rejected.
\<close>

lemma main_size_rejected_ILP32:
  assumes "length argv = 3"
    and "os_open K (argv ! 1) k = (fd, e, k1)" and "fd \<noteq> -1"
    and "strtoul ILP32 (argv ! 2) = (v, endptr, range_error)"
    and "endptr \<noteq> [] \<or> 2147483647 < v"
  shows "main ILP32 K argv k =
     (3, \<lparr>kern = os_close K fd k1, errno = (if range_error then ERANGE else 0), stdout = [],
          stderr = ''The size given is either invalid or too big\<newline>'',
          calls = [Open (argv ! 1) fd e, Close fd]\<rparr>)"
proof -
  have "v \<le> 4294967295"
    using strtoul_le_ULONG_MAX [OF assms(4)] by simp
  then have "unat (of_nat v :: 32 word) = v"
    by (simp add: unat_of_nat)
  then have "(2147483647 :: 32 word) < of_nat v \<longleftrightarrow> 2147483647 < v"
    by (simp add: word_less_nat_alt)
  with assms(5) have "endptr \<noteq> [] \<or> (of_nat v :: 32 word) > 2147483647"
    by simp
  then show ?thesis
    by (rule main_size_rejected [OF assms(1-4)])
qed

lemma main_resize:
  assumes "length argv = 3"
    and "os_open K (argv ! 1) k = (fd, e, k1)" and "fd \<noteq> -1"
    and "strtoul dm (argv ! 2) = (v, [], range_error)"
    and "(of_nat v :: 32 word) \<le> 2147483647"
    and "os_setpipe_sz K fd (of_nat v) k1 = (r, e2, k2)"
  shows "main dm K argv k =
     (if r = -1 then
        (4, \<lparr>kern = os_close K fd k2, errno = e2, stdout = [],
             stderr = ''Operation failed: '' @ os_strerror K e2 @ ''\<newline>'',
             calls = [Open (argv ! 1) fd e, SetPipeSz fd (of_nat v) r e2, Close fd]\<rparr>)
      else
        (0, \<lparr>kern = os_close K fd k2, errno = (if range_error then ERANGE else 0),
             stdout = printf_d (sint r) @ ''\<newline>'', stderr = [],
             calls = [Open (argv ! 1) fd e, SetPipeSz fd (of_nat v) r e2, Close fd]\<rparr>))"
  using assms by (auto simp: run_defs INT_MAX_def)

lemma query_output:
  assumes "main dm K argv k = (code, w)" and "GetPipeSz fd r e \<in> set (calls w)"
  shows "length argv = 2 \<and> code = (if r = -1 then 4 else 0) \<and>
         stdout w = (if r = -1 then [] else printf_d (sint r) @ ''\<newline>'')"
  using assms by (auto simp: run_defs Let_def split: if_splits prod.splits)

subsection \<open>Usage errors\<close>

text \<open>
  C2. An invocation whose argument count (the program name included) is neither 2 nor 3
  writes the usage message to the error stream and ends with exit code 1. It makes no
  system call at all, so it never tries to open anything: the list of calls is empty and
  the kernel state is the one the run started in.
\<close>

theorem usage_error:
  assumes "length argv \<noteq> 2" and "length argv \<noteq> 3"
  shows "main dm K argv k =
     (1, \<lparr>kern = k, errno = 0, stdout = [],
          stderr = ''Usage: '' @ argv0 argv @ '' <fifo_path> [new_fifo_size]\<newline>'',
          calls = []\<rparr>)"
proof -
  from assms have "length argv < 2 \<or> 3 < length argv" by arith
  then show ?thesis by (rule main_usage)
qed

theorem usage_error_witness:
  "length [''pipe_resize''] \<noteq> 2 \<and> length [''pipe_resize''] \<noteq> 3 \<and>
   main LP64 fifo_os [''pipe_resize''] 65536 =
     (1, \<lparr>kern = 65536, errno = 0, stdout = [],
          stderr = ''Usage: pipe_resize <fifo_path> [new_fifo_size]\<newline>'', calls = []\<rparr>)"
  using usage_error [of "[''pipe_resize'']" LP64 fifo_os 65536] by (simp add: argv0_def)

subsection \<open>Failure to open\<close>

text \<open>
  C3. When the read-write open of the path fails (it returns \<open>-1\<close>), the program writes
  to the error stream a line made of the supplied path and of the error text of the
  operating system for the \<^verbatim>\<open>errno\<close> of the failure, and ends with exit code 2. The
  open is the only system call of the run: no control call is made.
\<close>

theorem open_failure:
  assumes "length argv = 2 \<or> length argv = 3"
    and "os_open K (argv ! 1) k = (-1, e, k')"
  shows "main dm K argv k =
     (2, \<lparr>kern = k', errno = e, stdout = [],
          stderr = ''Failed to open '' @ argv ! 1 @ '': '' @ os_strerror K e @ ''\<newline>'',
          calls = [Open (argv ! 1) (-1) e]\<rparr>)"
  using assms by (rule main_open_failed)

theorem open_failure_witness:
  "os_open fifo_os ''/tmp/nosuchfifo'' 65536 = (-1, 2, 65536) \<and>
   main LP64 fifo_os [''pipe_resize'', ''/tmp/nosuchfifo''] 65536 =
     (2, \<lparr>kern = 65536, errno = 2, stdout = [],
          stderr = ''Failed to open /tmp/nosuchfifo: No such file or directory\<newline>'',
          calls = [Open ''/tmp/nosuchfifo'' (-1) 2]\<rparr>)"
  using open_failure [of "[''pipe_resize'', ''/tmp/nosuchfifo'']" fifo_os 65536 2 65536 LP64]
  by (simp add: fifo_os_def)

subsection \<open>The control call\<close>

text \<open>
  C4. In every run in which the get or the set control call returns \<open>-1\<close>, the program
  writes to the error stream a line with the error text of the operating system for the
  \<^verbatim>\<open>errno\<close> of that call, closes the handle (the last call of the run closes the
  descriptor that was opened and that the control call was made on), and ends with exit
  code 4. Nothing is written to standard output.
\<close>

theorem control_failure:
  assumes run: "main dm K argv k = (code, w)"
    and failed: "GetPipeSz fd (-1) e \<in> set (calls w) \<or> SetPipeSz fd n (-1) e \<in> set (calls w)"
  shows "code = 4 \<and>
         stderr w = ''Operation failed: '' @ os_strerror K e @ ''\<newline>'' \<and>
         stdout w = [] \<and>
         (\<exists>e0 ev. calls w = [Open (argv ! 1) fd e0, ev, Close fd])"
  using assms by (auto simp: run_defs Let_def split: if_splits prod.splits)

theorem control_failure_witness:
  "main LP64 fifo_os [''pipe_resize'', ''/tmp/myfifo'', ''2097152''] 65536 =
     (4, \<lparr>kern = 65536, errno = 1, stdout = [],
          stderr = ''Operation failed: Operation not permitted\<newline>'',
          calls = [Open ''/tmp/myfifo'' 3 0, SetPipeSz 3 2097152 (-1) 1, Close 3]\<rparr>) \<and>
   os_strerror fifo_os 1 = ''Operation not permitted''"
proof -
  have run: "main LP64 fifo_os [''pipe_resize'', ''/tmp/myfifo'', ''2097152''] 65536 =
     (4, \<lparr>kern = 65536, errno = 1, stdout = [],
          stderr = ''Operation failed: Operation not permitted\<newline>'',
          calls = [Open ''/tmp/myfifo'' 3 0, SetPipeSz 3 2097152 (-1) 1, Close 3]\<rparr>)"
    by (simp add: run_defs fifo_os_def strtoul_defs INT_MAX_def)
  from control_failure [OF run, of 3 1 2097152] show ?thesis
    using run by (simp add: fifo_os_def)
qed

text \<open>
  C5. In every run in which the control call succeeds (its result \<open>r\<close> is not \<open>-1\<close>),
  standard output is exactly \<open>r\<close> as a decimal integer followed by a newline, the
  handle is closed by the last call of the run, and the exit code is 0. Nothing is written
  to the error stream.
\<close>

theorem control_success:
  assumes run: "main dm K argv k = (code, w)"
    and ctl: "GetPipeSz fd r e \<in> set (calls w) \<or> SetPipeSz fd n r e \<in> set (calls w)"
    and ok: "r \<noteq> -1"
  shows "code = 0 \<and>
         stdout w = printf_d (sint r) @ ''\<newline>'' \<and>
         stderr w = [] \<and>
         (\<exists>e0 ev. calls w = [Open (argv ! 1) fd e0, ev, Close fd])"
  using assms by (auto simp: run_defs Let_def split: if_splits prod.splits)

theorem control_success_witness:
  "main LP64 fifo_os [''pipe_resize'', ''/tmp/myfifo''] 65536 =
     (0, \<lparr>kern = 65536, errno = 0, stdout = ''65536\<newline>'', stderr = [],
          calls = [Open ''/tmp/myfifo'' 3 0, GetPipeSz 3 65536 0, Close 3]\<rparr>) \<and>
   printf_d (sint (65536 :: 32 word)) @ ''\<newline>'' = ''65536\<newline>''"
proof -
  have run: "main LP64 fifo_os [''pipe_resize'', ''/tmp/myfifo''] 65536 =
     (0, \<lparr>kern = 65536, errno = 0, stdout = ''65536\<newline>'', stderr = [],
          calls = [Open ''/tmp/myfifo'' 3 0, GetPipeSz 3 65536 0, Close 3]\<rparr>)"
    by (simp add: run_defs fifo_os_def decimal_defs)
  from control_success [OF run, of 3 65536 0] show ?thesis
    using run by simp
qed

subsection \<open>Querying the size\<close>

text \<open>
  C6. With exactly one positional argument and a path that opens, the calls of the run
  are the open, one get-pipe-buffer-size request on the opened descriptor, and the close:
  the set request is never made. When the request succeeds the exit code is 0 and standard
  output is its result in decimal; in particular, when the kernel answers with the pipe's
  current buffer size \<open>cap\<close> (a non-negative \<^verbatim>\<open>int\<close>), the program prints the digits
  of \<open>cap\<close> and a newline.
\<close>

theorem query_issues_get:
  assumes "length argv = 2"
    and opened: "os_open K (argv ! 1) k = (fd, e, k1)" "fd \<noteq> -1"
    and answer: "os_getpipe_sz K fd k1 = (r, e2, k2)"
    and run: "main dm K argv k = (code, w)"
  shows "calls w = [Open (argv ! 1) fd e, GetPipeSz fd r e2, Close fd] \<and>
         (r \<noteq> -1 \<longrightarrow> code = 0 \<and> stdout w = printf_d (sint r) @ ''\<newline>'') \<and>
         (r = of_nat cap \<and> cap \<le> 2147483647 \<longrightarrow>
            code = 0 \<and> stdout w = decimal cap @ ''\<newline>'')"
proof -
  have "r \<noteq> -1 \<and> printf_d (sint r) = decimal cap" if "r = of_nat cap" "cap \<le> 2147483647"
    using that narrow_sint [of cap] narrow_not_minus_one [of cap] by (simp add: printf_d_def)
  then show ?thesis
    using run main_query [OF assms(1-4), of dm] by (auto split: if_splits)
qed

theorem query_issues_get_witness:
  "os_open fifo_os ''/tmp/myfifo'' 65536 = (3, 0, 65536) \<and>
   os_getpipe_sz fifo_os 3 65536 = (of_nat 65536, 0, 65536) \<and>
   main LP64 fifo_os [''pipe_resize'', ''/tmp/myfifo''] 65536 =
     (0, \<lparr>kern = 65536, errno = 0, stdout = decimal 65536 @ ''\<newline>'', stderr = [],
          calls = [Open ''/tmp/myfifo'' 3 0, GetPipeSz 3 65536 0, Close 3]\<rparr>) \<and>
   decimal 65536 = ''65536''"
proof -
  let ?w = "\<lparr>kern = 65536, errno = 0, stdout = ''65536\<newline>'', stderr = [],
          calls = [Open ''/tmp/myfifo'' 3 0, GetPipeSz 3 65536 0, Close 3]\<rparr>"
  have run: "main LP64 fifo_os [''pipe_resize'', ''/tmp/myfifo''] 65536 = (0, ?w)"
    by (simp add: run_defs fifo_os_def decimal_defs)
  have opened: "os_open fifo_os ([''pipe_resize'', ''/tmp/myfifo''] ! 1) 65536 = (3, 0, 65536)"
    and answer: "os_getpipe_sz fifo_os 3 65536 = (65536, 0, 65536)"
    by (simp_all add: fifo_os_def)
  from query_issues_get [OF _ opened _ answer run, of 65536] show ?thesis
    using run by (simp add: fifo_os_def decimal_defs)
qed

text \<open>
  C9. Two queries in succession, the second starting in the kernel state the first one
  left, to which the kernel reports the same buffer size \<open>r\<close>: both runs write the same
  text to standard output and end with the same exit code. The text is a function of the
  reported size alone.
\<close>

theorem query_idempotent:
  assumes first: "main dm K argv k = (code, w)"
    and second: "main dm K argv (kern w) = (code', w')"
    and unchanged: "GetPipeSz fd r e \<in> set (calls w)" "GetPipeSz fd' r e' \<in> set (calls w')"
  shows "length argv = 2 \<and> stdout w' = stdout w \<and> code' = code \<and>
         stdout w = (if r = -1 then [] else printf_d (sint r) @ ''\<newline>'')"
  using query_output [OF first unchanged(1)] query_output [OF second unchanged(2)] by simp

theorem query_idempotent_witness:
  "main LP64 fifo_os [''pipe_resize'', ''/tmp/myfifo''] 65536 =
     (0, \<lparr>kern = 65536, errno = 0, stdout = ''65536\<newline>'', stderr = [],
          calls = [Open ''/tmp/myfifo'' 3 0, GetPipeSz 3 65536 0, Close 3]\<rparr>) \<and>
   stdout (snd (main LP64 fifo_os [''pipe_resize'', ''/tmp/myfifo'']
     (kern (snd (main LP64 fifo_os [''pipe_resize'', ''/tmp/myfifo''] 65536))))) = ''65536\<newline>''"
proof -
  let ?w = "\<lparr>kern = 65536, errno = 0, stdout = ''65536\<newline>'', stderr = [],
          calls = [Open ''/tmp/myfifo'' 3 0, GetPipeSz 3 65536 0, Close 3]\<rparr>"
  have run: "main LP64 fifo_os [''pipe_resize'', ''/tmp/myfifo''] 65536 = (0, ?w)"
    by (simp add: run_defs fifo_os_def decimal_defs)
  have again: "main LP64 fifo_os [''pipe_resize'', ''/tmp/myfifo''] (kern ?w) = (0, ?w)"
    using run by simp
  from query_idempotent [OF run again, of 3 65536 0 3 0] show ?thesis
    using run by simp
qed

subsection \<open>Setting the size\<close>

text \<open>
  C7. With a path that opens and a size argument that is a clean decimal string (digits
  only, at least one; \<open>decimal N\<close> is one, by \<open>decimal_clean\<close>) of value \<open>N\<close> at
  most \<open>2^31 - 1\<close>, the calls of the run are the
  open, one set-pipe-buffer-size request with the value \<open>N\<close> on the opened descriptor,
  and the close; the narrowing to 32 bits and the cast to \<^verbatim>\<open>int\<close> keep the value. The
  run ends with exit code 4 when the kernel refuses the request, and otherwise with exit
  code 0, printing the kernel's answer. That the answer of a kernel that accepts the
  request is at least \<open>N\<close> (it may round up, fcntl(2)) is the kernel's contract, taken
  as the hypothesis \<open>rounds_up\<close>; with it the printed value is at least \<open>N\<close>.
\<close>

theorem resize_issues_set:
  assumes "length argv = 3"
    and clean: "argv ! 2 \<noteq> []" "list_all isdigit (argv ! 2)"
    and val: "dec_value (argv ! 2) = N" and range: "N \<le> 2147483647"
    and opened: "os_open K (argv ! 1) k = (fd, e, k1)" "fd \<noteq> -1"
    and answer: "os_setpipe_sz K fd (of_nat N) k1 = (r, e2, k2)"
    and rounds_up: "r = -1 \<or> int N \<le> sint r"
    and run: "main dm K argv k = (code, w)"
  shows "calls w = [Open (argv ! 1) fd e, SetPipeSz fd (of_nat N) r e2, Close fd] \<and>
         sint (of_nat N :: c_int) = int N \<and>
         (if r = -1 then code = 4
          else code = 0 \<and> stdout w = decimal (nat (sint r)) @ ''\<newline>'' \<and> N \<le> nat (sint r))"
proof -
  have parsed: "strtoul dm (argv ! 2) = (N, [], False)"
    using strtoul_digits [OF clean, of dm] INT_MAX_le_ULONG_MAX [OF range, of dm] val by simp
  have "main dm K argv k =
     (if r = -1 then
        (4, \<lparr>kern = os_close K fd k2, errno = e2, stdout = [],
             stderr = ''Operation failed: '' @ os_strerror K e2 @ ''\<newline>'',
             calls = [Open (argv ! 1) fd e, SetPipeSz fd (of_nat N) r e2, Close fd]\<rparr>)
      else
        (0, \<lparr>kern = os_close K fd k2, errno = (if False then ERANGE else 0),
             stdout = printf_d (sint r) @ ''\<newline>'', stderr = [],
             calls = [Open (argv ! 1) fd e, SetPipeSz fd (of_nat N) r e2, Close fd]\<rparr>))"
    by (rule main_resize [OF assms(1) opened parsed narrow_le [OF range] answer])
  moreover have "printf_d (sint r) = decimal (nat (sint r)) \<and> N \<le> nat (sint r)" if "r \<noteq> -1"
    using that rounds_up by (simp add: printf_d_def)
  ultimately show ?thesis
    using run narrow_sint [OF range] by (auto split: if_splits)
qed

theorem resize_issues_set_witness:
  "dec_value ''1048576'' = 1048576 \<and>
   os_open fifo_os ''/tmp/myfifo'' 65536 = (3, 0, 65536) \<and>
   os_setpipe_sz fifo_os 3 (of_nat 1048576) 65536 = (1048576, 0, 1048576) \<and>
   main LP64 fifo_os [''pipe_resize'', ''/tmp/myfifo'', ''1048576''] 65536 =
     (0, \<lparr>kern = 1048576, errno = 0, stdout = ''1048576\<newline>'', stderr = [],
          calls = [Open ''/tmp/myfifo'' 3 0, SetPipeSz 3 1048576 1048576 0, Close 3]\<rparr>) \<and>
   sint (of_nat 1048576 :: c_int) = 1048576"
proof -
  let ?argv = "[''pipe_resize'', ''/tmp/myfifo'', ''1048576'']"
  have len: "length ?argv = 3" by simp
  have clean: "?argv ! 2 \<noteq> []" "list_all isdigit (?argv ! 2)"
    and val: "dec_value (?argv ! 2) = 1048576"
    by (simp_all add: isdigit_def dec_value_def digit_of_def)
  have opened: "os_open fifo_os (?argv ! 1) 65536 = (3, 0, 65536)"
    and answer: "os_setpipe_sz fifo_os 3 (of_nat 1048576) 65536 = (1048576, 0, 1048576)"
    by (simp_all add: fifo_os_def)
  have run: "main LP64 fifo_os ?argv 65536 =
     (0, \<lparr>kern = 1048576, errno = 0, stdout = ''1048576\<newline>'', stderr = [],
          calls = [Open ''/tmp/myfifo'' 3 0, SetPipeSz 3 1048576 1048576 0, Close 3]\<rparr>)"
    by (simp add: run_defs fifo_os_def strtoul_defs INT_MAX_def decimal_defs)
  from resize_issues_set [OF len clean val _ opened _ answer _ run] show ?thesis
    using run val opened answer by simp
qed

text \<open>
  C10. Some size arguments that are not clean decimal strings pass the parse step, and the
  set request is made with their converted value \<open>v\<close> (what \<^verbatim>\<open>strtoul\<close> returns),
  provided \<open>v\<close> is at most 2147483647: the empty string, with value 0, and any string
  made of white space, an optional sign and at least one digit, with the value of the
  digits, negated in \<^verbatim>\<open>unsigned long\<close> after a minus sign. The run then ends with exit
  code 0 or 4, not 3. The instance after the theorem runs the program on the empty
  string, on \<^verbatim>\<open>-0\<close>, on \<^verbatim>\<open>+5\<close> and on \<^verbatim>\<open> 5\<close>.
\<close>

theorem unclean_sizes_accepted:
  assumes "length argv = 3"
    and opened: "os_open K (argv ! 1) k = (fd, e, k1)" "fd \<noteq> -1"
    and shape: "argv ! 2 = [] \<or>
                argv ! 2 = ws @ sg @ ds \<and> list_all isspace ws \<and>
                (sg = [] \<or> sg = ''+'' \<or> sg = ''-'') \<and> ds \<noteq> [] \<and> list_all isdigit ds"
    and converted: "strtoul dm (argv ! 2) = (v, endptr, range_error)"
    and fits: "v \<le> 2147483647"
    and answer: "os_setpipe_sz K fd (of_nat v) k1 = (r, e2, k2)"
    and run: "main dm K argv k = (code, w)"
  shows "endptr = [] \<and> (code = 0 \<or> code = 4) \<and>
         calls w = [Open (argv ! 1) fd e, SetPipeSz fd (of_nat v) r e2, Close fd] \<and>
         (if argv ! 2 = [] then v = 0
          else if sg = ''-'' then v = (ULONG_MAX dm + 1 - dec_value ds) mod (ULONG_MAX dm + 1)
          else v = dec_value ds)"
proof -
  have big: "2147483647 < ULONG_MAX dm"
    by (cases dm) simp_all
  have parsed: "endptr = [] \<and>
         (if argv ! 2 = [] then v = 0
          else if sg = ''-'' then v = (ULONG_MAX dm + 1 - dec_value ds) mod (ULONG_MAX dm + 1)
          else v = dec_value ds)"
  proof (cases "argv ! 2 = []")
    case True
    then show ?thesis using converted by (simp add: strtoul_defs)
  next
    case False
    with shape have s: "argv ! 2 = ws @ sg @ ds" and ws: "list_all isspace ws"
      and sg: "sg = [] \<or> sg = ''+'' \<or> sg = ''-''" and ds: "ds \<noteq> []" "list_all isdigit ds"
      by simp_all
    show ?thesis
      using converted fits big False
      unfolding s strtoul_signed_digits [OF ws sg ds]
      by (auto split: if_splits)
  qed
  then have conv: "strtoul dm (argv ! 2) = (v, [], range_error)"
    using converted by simp
  show ?thesis
    using parsed run main_resize [OF assms(1) opened conv narrow_le [OF fits] answer]
    by (auto split: if_splits)
qed

theorem unclean_sizes_accepted_witness:
  "main LP64 fifo_os [''pipe_resize'', ''/tmp/myfifo'', ''''] 65536 =
     (0, \<lparr>kern = 4096, errno = 0, stdout = ''4096\<newline>'', stderr = [],
          calls = [Open ''/tmp/myfifo'' 3 0, SetPipeSz 3 0 4096 0, Close 3]\<rparr>) \<and>
   main LP64 fifo_os [''pipe_resize'', ''/tmp/myfifo'', ''-0''] 65536 =
     (0, \<lparr>kern = 4096, errno = 0, stdout = ''4096\<newline>'', stderr = [],
          calls = [Open ''/tmp/myfifo'' 3 0, SetPipeSz 3 0 4096 0, Close 3]\<rparr>) \<and>
   main LP64 fifo_os [''pipe_resize'', ''/tmp/myfifo'', ''+5''] 65536 =
     (0, \<lparr>kern = 4096, errno = 0, stdout = ''4096\<newline>'', stderr = [],
          calls = [Open ''/tmp/myfifo'' 3 0, SetPipeSz 3 5 4096 0, Close 3]\<rparr>) \<and>
   main LP64 fifo_os [''pipe_resize'', ''/tmp/myfifo'', '' 5''] 65536 =
     (0, \<lparr>kern = 4096, errno = 0, stdout = ''4096\<newline>'', stderr = [],
          calls = [Open ''/tmp/myfifo'' 3 0, SetPipeSz 3 5 4096 0, Close 3]\<rparr>)"
proof -
  let ?argv = "\<lambda>s. [''pipe_resize'', ''/tmp/myfifo'', s]"
  let ?w = "\<lambda>n. \<lparr>kern = 4096, errno = 0, stdout = ''4096\<newline>'', stderr = [],
          calls = [Open ''/tmp/myfifo'' 3 0, SetPipeSz 3 n 4096 0, Close 3]\<rparr>"
  have opened: "os_open fifo_os (?argv s ! 1) 65536 = (3, 0, 65536)" for s
    by (simp add: fifo_os_def)
  have answer: "os_setpipe_sz fifo_os 3 (of_nat 0) 65536 = (4096, 0, 4096)"
    "os_setpipe_sz fifo_os 3 (of_nat 5) 65536 = (4096, 0, 4096)"
    by (simp_all add: fifo_os_def)
  have conv: "strtoul LP64 (?argv [] ! 2) = (0, [], False)"
    "strtoul LP64 (?argv ''-0'' ! 2) = (0, [], False)"
    "strtoul LP64 (?argv ''+5'' ! 2) = (5, [], False)"
    "strtoul LP64 (?argv '' 5'' ! 2) = (5, [], False)"
    by (simp_all add: strtoul_defs)
  have run: "main LP64 fifo_os (?argv []) 65536 = (0, ?w 0)"
    "main LP64 fifo_os (?argv ''-0'') 65536 = (0, ?w 0)"
    "main LP64 fifo_os (?argv ''+5'') 65536 = (0, ?w 5)"
    "main LP64 fifo_os (?argv '' 5'') 65536 = (0, ?w 5)"
    by (simp_all add: run_defs fifo_os_def strtoul_defs INT_MAX_def decimal_defs)
  note unclean_sizes_accepted [OF _ opened _ _ conv(1) _ answer(1) run(1), of "[]" "[]" "[]"]
    unclean_sizes_accepted [OF _ opened _ _ conv(2) _ answer(1) run(2), of "[]" "''-''" "''0''"]
    unclean_sizes_accepted [OF _ opened _ _ conv(3) _ answer(2) run(3), of "[]" "''+''" "''5''"]
    unclean_sizes_accepted [OF _ opened _ _ conv(4) _ answer(2) run(4), of "'' ''" "[]" "''5''"]
  then show ?thesis
    using run by simp
qed

text \<open>
  C1, where the code departs from it. On a target where \<^verbatim>\<open>unsigned long\<close> has 64
  bits, the size argument \<^verbatim>\<open>99999999999\<close> is parsed without a range error, has no
  trailing character, and exceeds 2147483647; yet the program does not end with exit
  code 3. The result of \<^verbatim>\<open>strtoul\<close> is narrowed to the 32-bit \<^verbatim>\<open>unsigned size\<close>
  before the comparison with \<^verbatim>\<open>INT_MAX\<close>, which leaves 1215752191, and the set
  request is made with that value; the run ends with exit code 0 or 4. (What the check
  does reject is in \<open>main_size_rejected\<close>: a trailing character, or a narrowed value
  above \<^verbatim>\<open>INT_MAX\<close>. With a 32-bit \<^verbatim>\<open>unsigned long\<close> that is every converted
  value above \<^verbatim>\<open>INT_MAX\<close>, \<open>main_size_rejected_ILP32\<close>.)
\<close>

theorem oversized_size_accepted_on_LP64:
  assumes "length argv = 3" and big: "argv ! 2 = ''99999999999''"
    and opened: "os_open K (argv ! 1) k = (fd, e, k1)" "fd \<noteq> -1"
    and answer: "os_setpipe_sz K fd 1215752191 k1 = (r, e2, k2)"
    and run: "main LP64 K argv k = (code, w)"
  shows "dec_value (argv ! 2) = 99999999999 \<and>
         (code = 0 \<or> code = 4) \<and>
         calls w = [Open (argv ! 1) fd e, SetPipeSz fd 1215752191 r e2, Close fd]"
proof -
  have parsed: "strtoul LP64 (argv ! 2) = (99999999999, [], False)"
    unfolding big by (simp add: strtoul_defs)
  have narrowed: "(of_nat 99999999999 :: 32 word) = 1215752191"
    by simp
  have fits: "(of_nat 99999999999 :: 32 word) \<le> 2147483647"
    unfolding narrowed by simp
  have answer': "os_setpipe_sz K fd (of_nat 99999999999) k1 = (r, e2, k2)"
    unfolding narrowed by (rule answer)
  have "dec_value (argv ! 2) = 99999999999"
    unfolding big by (simp add: dec_value_def digit_of_def)
  then show ?thesis
    using run main_resize [OF assms(1) opened parsed fits answer']
    unfolding narrowed by (auto split: if_splits)
qed

theorem oversized_size_accepted_on_LP64_witness:
  "os_open fifo_os ''/tmp/myfifo'' 65536 = (3, 0, 65536) \<and>
   main LP64 fifo_os [''pipe_resize'', ''/tmp/myfifo'', ''99999999999''] 65536 =
     (4, \<lparr>kern = 65536, errno = 1, stdout = [],
          stderr = ''Operation failed: Operation not permitted\<newline>'',
          calls = [Open ''/tmp/myfifo'' 3 0, SetPipeSz 3 1215752191 (-1) 1, Close 3]\<rparr>)"
proof -
  let ?argv = "[''pipe_resize'', ''/tmp/myfifo'', ''99999999999'']"
  have opened: "os_open fifo_os (?argv ! 1) 65536 = (3, 0, 65536)"
    and answer: "os_setpipe_sz fifo_os 3 1215752191 65536 = (-1, 1, 65536)"
    by (simp_all add: fifo_os_def)
  have run: "main LP64 fifo_os ?argv 65536 =
     (4, \<lparr>kern = 65536, errno = 1, stdout = [],
          stderr = ''Operation failed: Operation not permitted\<newline>'',
          calls = [Open ''/tmp/myfifo'' 3 0, SetPipeSz 3 1215752191 (-1) 1, Close 3]\<rparr>)"
    by (simp add: run_defs fifo_os_def strtoul_defs INT_MAX_def)
  from oversized_size_accepted_on_LP64 [OF _ _ opened _ answer run] show ?thesis
    using run opened by simp
qed

subsection \<open>The handle\<close>

text \<open>
  C8. In every run whose open succeeded, the exit code is 0, 3 or 4, and the descriptor the
  open returned is closed exactly once: the close is the last call of the run and no call
  before it is a close.
\<close>

theorem handle_closed_once:
  assumes run: "main dm K argv k = (code, w)"
    and opened: "Open path fd e \<in> set (calls w)" and "fd \<noteq> -1"
  shows "(code = 0 \<or> code = 3 \<or> code = 4) \<and>
         last (calls w) = Close fd \<and>
         (\<exists>before. calls w = before @ [Close fd] \<and> (\<forall>fd'. Close fd' \<notin> set before))"
  using assms by (auto simp: run_defs Let_def split: if_splits prod.splits)

theorem handle_closed_once_witness:
  "main LP64 fifo_os [''pipe_resize'', ''/tmp/myfifo'', ''abc''] 65536 =
     (3, \<lparr>kern = 65536, errno = 0, stdout = [],
          stderr = ''The size given is either invalid or too big\<newline>'',
          calls = [Open ''/tmp/myfifo'' 3 0, Close 3]\<rparr>) \<and>
   last [Open ''/tmp/myfifo'' 3 0, Close 3] = Close 3"
proof -
  have run: "main LP64 fifo_os [''pipe_resize'', ''/tmp/myfifo'', ''abc''] 65536 =
     (3, \<lparr>kern = 65536, errno = 0, stdout = [],
          stderr = ''The size given is either invalid or too big\<newline>'',
          calls = [Open ''/tmp/myfifo'' 3 0, Close 3]\<rparr>)"
    by (simp add: run_defs fifo_os_def strtoul_defs INT_MAX_def)
  from handle_closed_once [OF run, of "''/tmp/myfifo''" 3 0] show ?thesis
    using run by simp
qed

end
